theory Spec2Isabelle
  imports Complex_Main
begin

section \<open>Growth-Insights: the IP tracking middleware and the map page\<close>

text \<open>
  The middleware (\<^verbatim>\<open>middleware\<close>, \<^verbatim>\<open>getIpInfoFromIp\<close>, \<^verbatim>\<open>saveIpInfoToDatabase\<close>) is
  asynchronous TypeScript that awaits every call in sequence, so one request is a
  sequential program over the outside world. The outside world is split in two:
  \<^item> \<open>env\<close>: what the collaborators answer (the provider behind \<^verbatim>\<open>fetch\<close>, the
    database behind \<^verbatim>\<open>upsert\<close>, \<^verbatim>\<open>crypto.randomUUID\<close>, \<^verbatim>\<open>process.env\<close>);
  \<^item> \<open>world\<close>: what the program has done so far (the calls it issued, in order, the
    content of the table \<^verbatim>\<open>ip_info\<close>, the number of UUIDs drawn).
  A thrown exception or a rejected promise is the left summand of a sum type.

  The repository holds the middleware twice. The copy modelled here is the one without
  the unused read of the header \<^verbatim>\<open>user_id\<close>. The other copy has the same control flow;
  it adds that read and one \<^verbatim>\<open>console.log\<close> after an accepted write, and its messages
  (the body of the 400 answer and the two log lines) are worded in Portuguese.
\<close>

subsection \<open>JavaScript values\<close>

text \<open>
  The values of a JavaScript number. Every finite double is a rational; no definition
  below computes with numbers, they are only carried around.
\<close>

datatype double = Finite rat | PosInfinity | NegInfinity | NaN

text \<open>
  What \<^verbatim>\<open>res.json()\<close> can resolve to. An object is the list of its own properties.
  The value \<^verbatim>\<open>undefined\<close> is not a JSON value: a property read returns a
  \<open>json option\<close>, with \<open>None\<close> for \<^verbatim>\<open>undefined\<close>.
\<close>

datatype json =
    JNull
  | JBool bool
  | JNum double
  | JStr string
  | JArr "json list"
  | JObj "(string \<times> json) list"

datatype thrown = TypeError string | SyntaxError string | OtherError string

text \<open>
  \<^verbatim>\<open>data.k\<close> for the nine property names the middleware reads, none of which
  is inherited from a prototype: reading from \<^verbatim>\<open>null\<close> throws a TypeError, reading
  from an object gives its own property or \<^verbatim>\<open>undefined\<close>, reading from a boolean,
  number, string or array gives \<^verbatim>\<open>undefined\<close>.
\<close>

fun own_prop :: "json \<Rightarrow> string \<Rightarrow> json option" where
  "own_prop (JObj kvs) k = map_of kvs k"
| "own_prop (JBool b) k = None"
| "own_prop (JNum n) k = None"
| "own_prop (JStr s) k = None"
| "own_prop (JArr xs) k = None"
| "own_prop JNull k = None"

definition get_prop :: "json \<Rightarrow> string \<Rightarrow> thrown + json option" where
  "get_prop data k =
     (if data = JNull
      then Inl (TypeError (''Cannot read properties of null (reading '' @ k @ '')''))
      else Inr (own_prop data k))"

text \<open>Sequencing inside a \<^verbatim>\<open>try\<close> block: the first throw ends the block.\<close>

definition and_then :: "thrown + 'a \<Rightarrow> ('a \<Rightarrow> thrown + 'b) \<Rightarrow> thrown + 'b" where
  "and_then m f = (case m of Inl ex \<Rightarrow> Inl ex | Inr v \<Rightarrow> f v)"

text \<open>A template literal \<^verbatim>\<open>${v}\<close> of a string that may be \<^verbatim>\<open>undefined\<close>.\<close>

definition template_undefined :: "string option \<Rightarrow> string" where
  "template_undefined v = (case v of None \<Rightarrow> ''undefined'' | Some s \<Rightarrow> s)"

text \<open>\<^verbatim>\<open>!v\<close> for \<^verbatim>\<open>v: string | null\<close>: true for \<^verbatim>\<open>null\<close> and for the empty string.\<close>

definition falsy :: "string option \<Rightarrow> bool" where
  "falsy v = (case v of None \<Rightarrow> True | Some s \<Rightarrow> s = [])"

subsection \<open>Data model\<close>

text \<open>The object \<^verbatim>\<open>getIpInfoFromIp\<close> returns: nine properties, each possibly undefined.\<close>

record ip_info =
  ip :: "json option"
  hostname :: "json option"
  city :: "json option"
  region :: "json option"
  country :: "json option"
  loc :: "json option"
  org :: "json option"
  postal :: "json option"
  timezone :: "json option"

text \<open>The object handed to \<^verbatim>\<open>upsert\<close>: the nine properties and \<^verbatim>\<open>id\<close>.\<close>

record ip_row = ip_info +
  row_id :: string

record http_response =
  status :: nat
  res_json :: "thrown + json"

datatype logged = Exn thrown | PostgrestError string

datatype event =
    FetchCall string
  | UpsertCall "ip_row list"
  | ConsoleError string logged

record env =
  IP_KEY :: "string option"
  fetch :: "string \<Rightarrow> thrown + http_response"
  randomUUID :: "nat \<Rightarrow> string"
  upsert_error :: "ip_row list \<Rightarrow> string option"

record world =
  uuids_drawn :: nat
  ip_info_table :: "ip_row list"
  events :: "event list"

record request =
  pathname :: string
  headers_get :: "string \<Rightarrow> string option"

datatype response =
    NextResponse_next
  | NextResponse_json json nat

definition emit :: "event \<Rightarrow> world \<Rightarrow> world" where
  "emit ev w = w\<lparr>events := events w @ [ev]\<rparr>"

subsection \<open>The database collaborator\<close>

text \<open>
  Modelled from the spec: the table \<^verbatim>\<open>ip_info\<close> and the Supabase client are not among
  the sources. The store is "an opaque upsert-capable store", an upsert is an
  "insert-or-update write keyed on a uniqueness constraint", here the column \<^verbatim>\<open>id\<close>.
  Whether the database rejects a write is the environment's answer \<open>upsert_error\<close>
  (the \<^verbatim>\<open>error\<close> of the value the call resolves to); a rejected write changes nothing.
\<close>

fun upsert_row :: "ip_row \<Rightarrow> ip_row list \<Rightarrow> ip_row list" where
  "upsert_row r [] = [r]"
| "upsert_row r (x # xs) = (if row_id x = row_id r then r # xs else x # upsert_row r xs)"

definition upsert :: "env \<Rightarrow> ip_row list \<Rightarrow> world \<Rightarrow> string option \<times> world" where
  "upsert e rows w =
     (let w1 = emit (UpsertCall rows) w in
      case upsert_error e rows of
        Some err \<Rightarrow> (Some err, w1)
      | None \<Rightarrow> (None, w1\<lparr>ip_info_table := foldl (\<lambda>t r. upsert_row r t) (ip_info_table w1) rows\<rparr>))"

definition crypto_randomUUID :: "env \<Rightarrow> world \<Rightarrow> string \<times> world" where
  "crypto_randomUUID e w = (randomUUID e (uuids_drawn w), w\<lparr>uuids_drawn := Suc (uuids_drawn w)\<rparr>)"

subsection \<open>The middleware\<close>

definition IPINFO_API_URL :: string where
  "IPINFO_API_URL = ''https://ipinfo.io''"

definition provider_url :: "env \<Rightarrow> string \<Rightarrow> string" where
  "provider_url e addr =
     IPINFO_API_URL @ ''/'' @ addr @ ''/json?token='' @ template_undefined (IP_KEY e)"

text \<open>The object literal of \<^verbatim>\<open>getIpInfoFromIp\<close>: nine property reads, in source order.\<close>

definition read_fields :: "json \<Rightarrow> thrown + ip_info" where
  "read_fields data =
     and_then (get_prop data ''ip'') (\<lambda>v1.
     and_then (get_prop data ''hostname'') (\<lambda>v2.
     and_then (get_prop data ''city'') (\<lambda>v3.
     and_then (get_prop data ''region'') (\<lambda>v4.
     and_then (get_prop data ''country'') (\<lambda>v5.
     and_then (get_prop data ''loc'') (\<lambda>v6.
     and_then (get_prop data ''org'') (\<lambda>v7.
     and_then (get_prop data ''postal'') (\<lambda>v8.
     and_then (get_prop data ''timezone'') (\<lambda>v9.
       Inr \<lparr>ip = v1, hostname = v2, city = v3, region = v4, country = v5,
            loc = v6, org = v7, postal = v8, timezone = v9\<rparr>)))))))))"

text \<open>The \<^verbatim>\<open>try\<close> block: \<^verbatim>\<open>fetch\<close>, then \<^verbatim>\<open>res.json()\<close>, then the object literal.\<close>

definition try_block :: "env \<Rightarrow> string \<Rightarrow> thrown + ip_info" where
  "try_block e url =
     and_then (fetch e url) (\<lambda>res.
     and_then (res_json res) (\<lambda>data.
       read_fields data))"

definition getIpInfoFromIp :: "env \<Rightarrow> string \<Rightarrow> world \<Rightarrow> ip_info option \<times> world" where
  "getIpInfoFromIp e addr w =
     (let url = provider_url e addr;
          w1 = emit (FetchCall url) w in
      case try_block e url of
        Inr info \<Rightarrow> (Some info, w1)
      | Inl err \<Rightarrow> (None, emit (ConsoleError ''Error fetching IP info:'' (Exn err)) w1))"

text \<open>The object literal inside the \<^verbatim>\<open>upsert\<close> call of \<^verbatim>\<open>saveIpInfoToDatabase\<close>.\<close>

definition new_row :: "string \<Rightarrow> ip_info \<Rightarrow> ip_row" where
  "new_row uuid ipInfo =
     \<lparr>ip = ip ipInfo, hostname = hostname ipInfo, city = city ipInfo,
      region = region ipInfo, country = country ipInfo, loc = loc ipInfo,
      org = org ipInfo, postal = postal ipInfo, timezone = timezone ipInfo,
      row_id = uuid\<rparr>"

text \<open>
  \<^verbatim>\<open>if (!ipInfo) return\<close>: the argument is an object or \<^verbatim>\<open>null\<close>, and every object
  is truthy. \<^verbatim>\<open>createClient()\<close> only builds the client handle.
\<close>

definition saveIpInfoToDatabase :: "env \<Rightarrow> ip_info option \<Rightarrow> world \<Rightarrow> world" where
  "saveIpInfoToDatabase e ipInfo w =
     (case ipInfo of
        None \<Rightarrow> w
      | Some info \<Rightarrow>
          (let (uuid, w1) = crypto_randomUUID e w;
               (err, w2) = upsert e [new_row uuid info] w1 in
           case err of
             Some er \<Rightarrow> emit (ConsoleError ''Error saving IP info to Supabase:'' (PostgrestError er)) w2
           | None \<Rightarrow> w2))"

definition allowed_paths :: "string list" where
  "allowed_paths = [''/'', ''/poem'', ''/monitoring'']"

text \<open>
  Past the check \<^verbatim>\<open>if (!ip)\<close> the header value is a non-empty string, so \<open>the\<close> is
  only applied to a \<open>Some\<close>.
\<close>

definition middleware :: "env \<Rightarrow> request \<Rightarrow> world \<Rightarrow> response \<times> world" where
  "middleware e req w =
     (let response = NextResponse_next in
      if pathname req \<notin> set allowed_paths then
        (NextResponse_json (JObj [(''error'', JStr ''Access to this endpoint is not allowed'')]) 403, w)
      else
        (let addr = headers_get req ''x-forwarded-for'' in
         if falsy addr then
           (NextResponse_json (JObj [(''error'', JStr ''IP not found'')]) 400, w)
         else
           (let (ipInfo, w1) = getIpInfoFromIp e (the addr) w;
                w2 = saveIpInfoToDatabase e ipInfo w1 in
            (response, w2))))"

subsection \<open>Observations on a run\<close>

fun is_fetch :: "event \<Rightarrow> bool" where
  "is_fetch (FetchCall u) = True"
| "is_fetch (UpsertCall rs) = False"
| "is_fetch (ConsoleError m x) = False"

fun is_upsert :: "event \<Rightarrow> bool" where
  "is_upsert (UpsertCall rs) = True"
| "is_upsert (FetchCall u) = False"
| "is_upsert (ConsoleError m x) = False"

text \<open>The rows handed to the store so far, one entry per row, in order.\<close>

fun rows_written :: "event list \<Rightarrow> ip_row list" where
  "rows_written [] = []"
| "rows_written (UpsertCall rs # evs) = rs @ rows_written evs"
| "rows_written (FetchCall u # evs) = rows_written evs"
| "rows_written (ConsoleError m x # evs) = rows_written evs"

subsection \<open>The map page\<close>

text \<open>
  A row of \<^verbatim>\<open>select("loc, city, country, hostname")\<close>: four nullable text columns
  (\<open>None\<close> is \<^verbatim>\<open>null\<close>). The column names carry the prefix \<open>l_\<close> to keep them apart
  from the properties of \<open>ip_info\<close>.
\<close>

record location =
  l_loc :: "string option"
  l_city :: "string option"
  l_country :: "string option"
  l_hostname :: "string option"

text \<open>
  A marker as the page requests it from Leaflet: \<^verbatim>\<open>L.marker([lat, lng], ...)\<close> and the
  HTML bound as its popup; a coordinate is \<open>None\<close> when it is \<^verbatim>\<open>undefined\<close>. The
  icon is the same constant for every marker and is left out.
\<close>

record marker =
  lat :: "double option"
  lng :: "double option"
  popup :: string

record page =
  locations :: "location list"
  leaflet_map :: "marker list option"
  console :: "string list"

definition initial_page :: page where
  "initial_page = \<lparr>locations = [], leaflet_map = None, console = []\<rparr>"

text \<open>\<^verbatim>\<open>s.split(sep)\<close> for a separator of one character; the result is never empty.\<close>

fun js_split :: "char \<Rightarrow> string \<Rightarrow> string list" where
  "js_split sep [] = [[]]"
| "js_split sep (c # cs) =
     (if c = sep then [] # js_split sep cs
      else (case js_split sep cs of
              p # ps \<Rightarrow> (c # p) # ps
            | [] \<Rightarrow> [[c]]))"

text \<open>Array destructuring: an index past the end gives \<^verbatim>\<open>undefined\<close>.\<close>

definition element :: "'a list \<Rightarrow> nat \<Rightarrow> 'a option" where
  "element xs i = (if i < length xs then Some (xs ! i) else None)"

definition template_null :: "string option \<Rightarrow> string" where
  "template_null v = (case v of None \<Rightarrow> ''null'' | Some s \<Rightarrow> s)"

text \<open>
  The global \<^verbatim>\<open>isNaN\<close> on a value that is a number or \<^verbatim>\<open>undefined\<close>: \<^verbatim>\<open>undefined\<close>
  converts to NaN.
\<close>

definition isNaN :: "double option \<Rightarrow> bool" where
  "isNaN v = (case v of None \<Rightarrow> True | Some d \<Rightarrow> d = NaN)"

text \<open>
  \<^verbatim>\<open>L.marker([lat, lng], ...)\<close>. Leaflet is a library and not among the sources; its
  constructor is modelled from the library's behaviour: the pair is turned into a
  \<^verbatim>\<open>LatLng\<close>, whose constructor throws an \<^verbatim>\<open>Error\<close> "Invalid LatLng object" when
  \<^verbatim>\<open>isNaN(lat) || isNaN(lng)\<close>, and otherwise the marker exists. The message of the
  error also prints the two values; that part is left out.
\<close>

definition L_marker :: "double option \<Rightarrow> double option \<Rightarrow> thrown + marker" where
  "L_marker lat_v lng_v =
     (if isNaN lat_v \<or> isNaN lng_v then Inl (OtherError ''Invalid LatLng object'')
      else Inr \<lparr>lat = lat_v, lng = lng_v, popup = []\<rparr>)"

definition bindPopup :: "string \<Rightarrow> marker \<Rightarrow> marker" where
  "bindPopup html m = m\<lparr>popup := html\<rparr>"

text \<open>
  The callback of \<^verbatim>\<open>locations.forEach\<close>. \<^verbatim>\<open>Number\<close> is a parameter (it returns a
  double). \<^verbatim>\<open>loc.split\<close> on \<^verbatim>\<open>null\<close> throws, and so does \<^verbatim>\<open>L.marker\<close> on a
  coordinate that is NaN or \<^verbatim>\<open>undefined\<close>; a marker is on the map once
  \<^verbatim>\<open>addTo(map)\<close> has run.
\<close>

definition add_marker :: "(string \<Rightarrow> double) \<Rightarrow> location \<Rightarrow> marker list \<Rightarrow> thrown + marker list" where
  "add_marker Number item ms =
     (case l_loc item of
        None \<Rightarrow> Inl (TypeError ''Cannot read properties of null (reading split)'')
      | Some s \<Rightarrow>
          (let coords = map Number (js_split CHR '','' s) in
           and_then (L_marker (element coords 0) (element coords 1)) (\<lambda>m.
             Inr (ms @ [bindPopup (''<h3>'' @ template_null (l_city item) @ '', ''
                                   @ template_null (l_country item) @ ''</h3><p>''
                                   @ template_null (l_hostname item) @ ''</p>'') m]))))"

text \<open>
  \<^verbatim>\<open>locations.forEach\<close>: an exception thrown by the callback ends the loop and leaves
  the effect.
\<close>

fun forEach :: "(string \<Rightarrow> double) \<Rightarrow> location list \<Rightarrow> marker list \<Rightarrow> thrown + marker list" where
  "forEach Number [] ms = Inr ms"
| "forEach Number (item # items) ms =
     and_then (add_marker Number item ms) (forEach Number items)"

text \<open>\<^verbatim>\<open>fetchLocations\<close>, given what the \<^verbatim>\<open>select\<close> resolved to: an error or the rows.\<close>

definition fetchLocations :: "string + location list \<Rightarrow> page \<Rightarrow> page" where
  "fetchLocations result p =
     (case result of
        Inl err \<Rightarrow> p\<lparr>console := console p @ [''Error fetching locations from Supabase:'']\<rparr>
      | Inr data \<Rightarrow> p\<lparr>locations := filter (\<lambda>item. \<not> falsy (l_loc item)) data\<rparr>)"

text \<open>
  The second effect. It runs after every change of \<^verbatim>\<open>locations\<close>; the map of the
  run before is removed by the cleanup function.
\<close>

definition render_effect :: "(string \<Rightarrow> double) \<Rightarrow> bool \<Rightarrow> page \<Rightarrow> thrown + page" where
  "render_effect Number window_defined p =
     (if length (locations p) > 0 \<and> window_defined then
        and_then (forEach Number (locations p) []) (\<lambda>ms. Inr (p\<lparr>leaflet_map := Some ms\<rparr>))
      else Inr (p\<lparr>leaflet_map := None\<rparr>))"

text \<open>
  The page from mount to the state after the rows arrived: both effects run on the
  first render, the second one again after \<^verbatim>\<open>setLocations\<close>.
\<close>

definition MapPage :: "(string \<Rightarrow> double) \<Rightarrow> bool \<Rightarrow> string + location list \<Rightarrow> thrown + page" where
  "MapPage Number window_defined result =
     and_then (render_effect Number window_defined initial_page) (\<lambda>p.
       render_effect Number window_defined (fetchLocations result p))"

definition markers_of :: "thrown + page \<Rightarrow> marker list" where
  "markers_of r = (case r of Inr p \<Rightarrow> (case leaflet_map p of Some ms \<Rightarrow> ms | None \<Rightarrow> []) | Inl ex \<Rightarrow> [])"

text \<open>
  The marker the visualization contract asks for, from a row with a location string:
  the text before the first comma and the text between the first and the second comma,
  each read as a number.
\<close>

definition spec_marker :: "(string \<Rightarrow> double) \<Rightarrow> location \<Rightarrow> marker" where
  "spec_marker Number item =
     (let parts = js_split CHR '','' (the (l_loc item)) in
      \<lparr>lat = map_option Number (element parts 0), lng = map_option Number (element parts 1),
       popup = ''<h3>'' @ template_null (l_city item) @ '', '' @ template_null (l_country item)
             @ ''</h3><p>'' @ template_null (l_hostname item) @ ''</p>''\<rparr>)"

definition has_loc :: "location \<Rightarrow> bool" where
  "has_loc item = (l_loc item \<noteq> None \<and> l_loc item \<noteq> Some [])"

text \<open>
  A row whose \<^verbatim>\<open>loc\<close> can be plotted: split at the commas it has at least two parts,
  and \<^verbatim>\<open>Number\<close> reads neither of the first two as NaN.
\<close>

definition plottable :: "(string \<Rightarrow> double) \<Rightarrow> location \<Rightarrow> bool" where
  "plottable Number item =
     (case l_loc item of
        None \<Rightarrow> False
      | Some s \<Rightarrow>
          (case js_split CHR '','' s of
             a # b # rest \<Rightarrow> Number a \<noteq> NaN \<and> Number b \<noteq> NaN
           | _ \<Rightarrow> False))"

subsection \<open>Concrete requests, answers and worlds\<close>

definition world0 :: world where
  "world0 = \<lparr>uuids_drawn = 0, ip_info_table = [], events = []\<rparr>"

definition req_monitoring :: request where
  "req_monitoring = \<lparr>pathname = ''/monitoring'', headers_get = [''x-forwarded-for'' \<mapsto> ''8.8.8.8'']\<rparr>"

definition req_secret_admin :: request where
  "req_secret_admin = \<lparr>pathname = ''/secret-admin'', headers_get = [''x-forwarded-for'' \<mapsto> ''8.8.8.8'']\<rparr>"

definition req_localhost :: request where
  "req_localhost = \<lparr>pathname = ''/'', headers_get = [''x-forwarded-for'' \<mapsto> ''127.0.0.1'']\<rparr>"

definition req_no_header :: request where
  "req_no_header = \<lparr>pathname = ''/poem'', headers_get = Map.empty\<rparr>"

definition req_empty_header :: request where
  "req_empty_header = \<lparr>pathname = ''/'', headers_get = [''x-forwarded-for'' \<mapsto> '''']\<rparr>"

definition req_proxy_chain :: request where
  "req_proxy_chain = \<lparr>pathname = ''/'', headers_get = [''x-forwarded-for'' \<mapsto> '' 203.0.113.7, 10.0.0.1'']\<rparr>"

definition payload_full :: json where
  "payload_full = JObj
     [(''ip'', JStr ''8.8.8.8''), (''hostname'', JStr ''dns.google''),
      (''city'', JStr ''Mountain View''), (''region'', JStr ''California''),
      (''country'', JStr ''US''), (''loc'', JStr ''37.4,-122.07''),
      (''org'', JStr ''AS15169 Google LLC''), (''postal'', JStr ''94043''),
      (''timezone'', JStr ''America/Los_Angeles'')]"

text \<open>What the lookup returns for \<open>payload_full\<close>.\<close>

definition info_full :: ip_info where
  "info_full =
     \<lparr>ip = Some (JStr ''8.8.8.8''), hostname = Some (JStr ''dns.google''),
      city = Some (JStr ''Mountain View''), region = Some (JStr ''California''),
      country = Some (JStr ''US''), loc = Some (JStr ''37.4,-122.07''),
      org = Some (JStr ''AS15169 Google LLC''), postal = Some (JStr ''94043''),
      timezone = Some (JStr ''America/Los_Angeles'')\<rparr>"

definition env_ok :: env where
  "env_ok = \<lparr>IP_KEY = Some ''tok'',
             fetch = (\<lambda>url. Inr \<lparr>status = 200, res_json = Inr payload_full\<rparr>),
             randomUUID = (\<lambda>n. ''uuid-'' @ replicate n CHR ''x''),
             upsert_error = (\<lambda>rows. None)\<rparr>"

definition env_offline :: env where
  "env_offline = env_ok\<lparr>fetch := (\<lambda>url. Inl (TypeError ''fetch failed''))\<rparr>"

definition env_html_500 :: env where
  "env_html_500 = env_ok\<lparr>fetch := (\<lambda>url.
     Inr \<lparr>status = 500, res_json = Inl (SyntaxError ''Unexpected token < in JSON at position 0'')\<rparr>)\<rparr>"

definition env_rate_limited :: env where
  "env_rate_limited = env_ok\<lparr>fetch := (\<lambda>url.
     Inr \<lparr>status = 429,
          res_json = Inr (JObj [(''status'', JNum (Finite 429)),
                                (''error'', JObj [(''title'', JStr ''Rate limit exceeded'')])])\<rparr>)\<rparr>"

definition env_bogon :: env where
  "env_bogon = env_ok\<lparr>fetch := (\<lambda>url.
     Inr \<lparr>status = 200, res_json = Inr (JObj [(''ip'', JStr ''127.0.0.1''), (''bogon'', JBool True)])\<rparr>)\<rparr>"

definition env_db_down :: env where
  "env_db_down = env_ok\<lparr>upsert_error := (\<lambda>rows. Some ''permission denied for table ip_info'')\<rparr>"

definition rows_example :: "location list" where
  "rows_example =
     [\<lparr>l_loc = Some ''37.4,-122.07'', l_city = Some ''Mountain View'', l_country = Some ''US'',
       l_hostname = Some ''dns.google''\<rparr>,
      \<lparr>l_loc = None, l_city = None, l_country = None, l_hostname = None\<rparr>,
      \<lparr>l_loc = Some '''', l_city = Some ''Lisbon'', l_country = Some ''PT'', l_hostname = None\<rparr>,
      \<lparr>l_loc = Some ''-23.5,-46.6'', l_city = Some ''Sao Paulo'', l_country = Some ''BR'',
       l_hostname = None\<rparr>]"

text \<open>Two rows with a location string; the first one is not of the form \<^verbatim>\<open>lat,lng\<close>.\<close>

definition rows_unplottable :: "location list" where
  "rows_unplottable =
     [\<lparr>l_loc = Some ''abc'', l_city = Some ''Lisbon'', l_country = Some ''PT'', l_hostname = None\<rparr>,
      \<lparr>l_loc = Some ''-23.5,-46.6'', l_city = Some ''Sao Paulo'', l_country = Some ''BR'',
       l_hostname = None\<rparr>]"

text \<open>
  A stand-in for \<^verbatim>\<open>Number\<close>: right on the four numerals of \<open>rows_example\<close>, and NaN
  elsewhere, as \<^verbatim>\<open>Number("abc")\<close> is.
\<close>

definition Number_example :: "string \<Rightarrow> double" where
  "Number_example s =
     (if s = ''37.4'' then Finite (187 / 5)
      else if s = ''-122.07'' then Finite (- 12207 / 100)
      else if s = ''-23.5'' then Finite (- 47 / 2)
      else if s = ''-46.6'' then Finite (- 233 / 5)
      else NaN)"

section \<open>Properties\<close>

subsection \<open>Helper facts\<close>

lemma middleware_forbidden:
  "pathname req \<notin> set allowed_paths \<Longrightarrow>
   middleware e req w =
     (NextResponse_json (JObj [(''error'', JStr ''Access to this endpoint is not allowed'')]) 403, w)"
  by (simp add: middleware_def)

lemma try_block_fetch_rejected:
  "fetch e url = Inl ex \<Longrightarrow> try_block e url = Inl ex"
  by (simp add: try_block_def and_then_def)

lemma try_block_unreadable:
  "fetch e url = Inr res \<Longrightarrow> res_json res = Inl ex \<Longrightarrow> try_block e url = Inl ex"
  by (simp add: try_block_def and_then_def)

lemma try_block_parsed:
  "fetch e url = Inr res \<Longrightarrow> res_json res = Inr data \<Longrightarrow> try_block e url = read_fields data"
  by (simp add: try_block_def and_then_def)

lemma read_fields_null:
  "read_fields JNull = Inl (TypeError ''Cannot read properties of null (reading ip)'')"
  by (simp add: read_fields_def and_then_def get_prop_def)

lemma read_fields_value:
  "data \<noteq> JNull \<Longrightarrow>
   read_fields data =
     Inr \<lparr>ip = own_prop data ''ip'', hostname = own_prop data ''hostname'',
          city = own_prop data ''city'', region = own_prop data ''region'',
          country = own_prop data ''country'', loc = own_prop data ''loc'',
          org = own_prop data ''org'', postal = own_prop data ''postal'',
          timezone = own_prop data ''timezone''\<rparr>"
  by (simp add: read_fields_def and_then_def get_prop_def)

lemma middleware_bad_request:
  "pathname req \<in> set allowed_paths \<Longrightarrow> falsy (headers_get req ''x-forwarded-for'') \<Longrightarrow>
   middleware e req w = (NextResponse_json (JObj [(''error'', JStr ''IP not found'')]) 400, w)"
  by (simp add: middleware_def)

lemma middleware_lookup_failed:
  "pathname req \<in> set allowed_paths \<Longrightarrow> headers_get req ''x-forwarded-for'' = Some v \<Longrightarrow>
   v \<noteq> [] \<Longrightarrow> try_block e (provider_url e v) = Inl ex \<Longrightarrow>
   middleware e req w =
     (NextResponse_next,
      w\<lparr>events := events w @ [FetchCall (provider_url e v),
                               ConsoleError ''Error fetching IP info:'' (Exn ex)]\<rparr>)"
  by (simp add: middleware_def falsy_def getIpInfoFromIp_def saveIpInfoToDatabase_def emit_def)

lemma middleware_saved:
  "pathname req \<in> set allowed_paths \<Longrightarrow> headers_get req ''x-forwarded-for'' = Some v \<Longrightarrow>
   v \<noteq> [] \<Longrightarrow> try_block e (provider_url e v) = Inr info \<Longrightarrow>
   upsert_error e [new_row (randomUUID e (uuids_drawn w)) info] = None \<Longrightarrow>
   middleware e req w =
     (NextResponse_next,
      w\<lparr>uuids_drawn := Suc (uuids_drawn w),
        ip_info_table := upsert_row (new_row (randomUUID e (uuids_drawn w)) info) (ip_info_table w),
        events := events w @ [FetchCall (provider_url e v),
                               UpsertCall [new_row (randomUUID e (uuids_drawn w)) info]]\<rparr>)"
  by (simp add: middleware_def falsy_def getIpInfoFromIp_def saveIpInfoToDatabase_def emit_def
      crypto_randomUUID_def upsert_def)

lemma middleware_save_failed:
  "pathname req \<in> set allowed_paths \<Longrightarrow> headers_get req ''x-forwarded-for'' = Some v \<Longrightarrow>
   v \<noteq> [] \<Longrightarrow> try_block e (provider_url e v) = Inr info \<Longrightarrow>
   upsert_error e [new_row (randomUUID e (uuids_drawn w)) info] = Some er \<Longrightarrow>
   middleware e req w =
     (NextResponse_next,
      w\<lparr>uuids_drawn := Suc (uuids_drawn w),
        events := events w @ [FetchCall (provider_url e v),
                               UpsertCall [new_row (randomUUID e (uuids_drawn w)) info],
                               ConsoleError ''Error saving IP info to Supabase:'' (PostgrestError er)]\<rparr>)"
  by (simp add: middleware_def falsy_def getIpInfoFromIp_def saveIpInfoToDatabase_def emit_def
      crypto_randomUUID_def upsert_def)

lemma rows_written_append:
  "rows_written (xs @ ys) = rows_written xs @ rows_written ys"
  by (induction xs rule: rows_written.induct) simp_all

lemma upsert_row_fresh:
  "row_id r \<notin> row_id ` set t \<Longrightarrow> upsert_row r t = t @ [r]"
  by (induction t) auto

text \<open>C1\<close>

lemma middleware_lookup_failed_obs:
  assumes "pathname req \<in> set allowed_paths" "headers_get req ''x-forwarded-for'' = Some v"
    "v \<noteq> []" "try_block e (provider_url e v) = Inl ex"
  shows "fst (getIpInfoFromIp e v w) = None"
    and "fst (middleware e req w) = NextResponse_next"
    and "rows_written (events (snd (middleware e req w))) = rows_written (events w)"
    and "filter is_upsert (events (snd (middleware e req w))) = filter is_upsert (events w)"
    and "ip_info_table (snd (middleware e req w)) = ip_info_table w"
    and "events (snd (middleware e req w)) =
           events w @ [FetchCall (provider_url e v), ConsoleError ''Error fetching IP info:'' (Exn ex)]"
  using assms(4) middleware_lookup_failed [OF assms, of w]
  by (simp_all add: getIpInfoFromIp_def rows_written_append)

lemma try_block_object:
  "fetch e url = Inr res \<Longrightarrow> res_json res = Inr data \<Longrightarrow> data \<noteq> JNull \<Longrightarrow>
   try_block e url =
     Inr \<lparr>ip = own_prop data ''ip'', hostname = own_prop data ''hostname'',
          city = own_prop data ''city'', region = own_prop data ''region'',
          country = own_prop data ''country'', loc = own_prop data ''loc'',
          org = own_prop data ''org'', postal = own_prop data ''postal'',
          timezone = own_prop data ''timezone''\<rparr>"
  by (simp add: try_block_parsed read_fields_value)

lemma try_block_Inr_D:
  assumes "try_block e url = Inr info"
  shows "\<exists>res data. fetch e url = Inr res \<and> res_json res = Inr data \<and> data \<noteq> JNull"
proof (cases "fetch e url")
  case (Inl ex)
  with assms show ?thesis by (simp add: try_block_fetch_rejected)
next
  case (Inr res)
  show ?thesis
  proof (cases "res_json res")
    case (Inl ex)
    with assms \<open>fetch e url = Inr res\<close> show ?thesis by (simp add: try_block_unreadable)
  next
    case json: (Inr data)
    with assms Inr have "read_fields data = Inr info"
      by (simp add: try_block_parsed)
    then have "data \<noteq> JNull"
      by (auto simp: read_fields_null)
    with Inr json show ?thesis by simp
  qed
qed

lemma middleware_write_attempted_obs:
  assumes "pathname req \<in> set allowed_paths" "headers_get req ''x-forwarded-for'' = Some v"
    "v \<noteq> []" "try_block e (provider_url e v) = Inr info"
  shows "fst (middleware e req w) = NextResponse_next
       \<and> rows_written (events (snd (middleware e req w))) =
           rows_written (events w) @ [new_row (randomUUID e (uuids_drawn w)) info]
       \<and> filter is_upsert (events (snd (middleware e req w))) =
           filter is_upsert (events w) @ [UpsertCall [new_row (randomUUID e (uuids_drawn w)) info]]
       \<and> uuids_drawn (snd (middleware e req w)) = Suc (uuids_drawn w)"
proof (cases "upsert_error e [new_row (randomUUID e (uuids_drawn w)) info]")
  case None
  from middleware_saved [OF assms None] show ?thesis
    by (simp add: rows_written_append)
next
  case (Some er)
  from middleware_save_failed [OF assms Some] show ?thesis
    by (simp add: rows_written_append)
qed

lemma try_block_payload_full:
  "fetch e url = Inr \<lparr>status = st, res_json = Inr payload_full\<rparr> \<Longrightarrow> try_block e url = Inr info_full"
  by (simp add: try_block_parsed read_fields_value payload_full_def info_full_def)

subsection \<open>The request gate\<close>

text \<open>
  C1. A request whose path is none of \<^verbatim>\<open>/\<close>, \<^verbatim>\<open>/poem\<close>, \<^verbatim>\<open>/monitoring\<close> is answered
  with status 403 and the JSON body \<^verbatim>\<open>{error: "Access to this endpoint is not allowed"}\<close>,
  and the world is left as it was: no call to the provider, no row handed to the
  store, the table unchanged.
\<close>

theorem forbidden_path_rejected:
  assumes "pathname req \<notin> {''/'', ''/poem'', ''/monitoring''}"
  shows "middleware e req w =
           (NextResponse_json (JObj [(''error'', JStr ''Access to this endpoint is not allowed'')]) 403, w)
       \<and> filter is_fetch (events (snd (middleware e req w))) = filter is_fetch (events w)
       \<and> rows_written (events (snd (middleware e req w))) = rows_written (events w)
       \<and> ip_info_table (snd (middleware e req w)) = ip_info_table w"
proof -
  from assms have "pathname req \<notin> set allowed_paths"
    by (simp add: allowed_paths_def)
  then show ?thesis
    by (simp add: middleware_forbidden)
qed

theorem forbidden_path_rejected_witness:
  "pathname req_secret_admin \<notin> {''/'', ''/poem'', ''/monitoring''}
   \<and> middleware env_ok req_secret_admin world0 =
       (NextResponse_json (JObj [(''error'', JStr ''Access to this endpoint is not allowed'')]) 403, world0)"
  using forbidden_path_rejected [of req_secret_admin env_ok world0]
  by (simp add: req_secret_admin_def)

text \<open>
  C2. A request to an allowed path without the header \<^verbatim>\<open>x-forwarded-for\<close> is answered
  with status 400 and the JSON body \<^verbatim>\<open>{error: "IP not found"}\<close>, and the world is left
  as it was: no call to the provider, no row handed to the store.
\<close>

theorem missing_header_rejected:
  assumes "pathname req \<in> {''/'', ''/poem'', ''/monitoring''}"
    and "headers_get req ''x-forwarded-for'' = None"
  shows "middleware e req w = (NextResponse_json (JObj [(''error'', JStr ''IP not found'')]) 400, w)
       \<and> filter is_fetch (events (snd (middleware e req w))) = filter is_fetch (events w)
       \<and> rows_written (events (snd (middleware e req w))) = rows_written (events w)
       \<and> ip_info_table (snd (middleware e req w)) = ip_info_table w"
proof -
  from assms(1) have "pathname req \<in> set allowed_paths"
    by (simp add: allowed_paths_def)
  moreover from assms(2) have "falsy (headers_get req ''x-forwarded-for'')"
    by (simp add: falsy_def)
  ultimately show ?thesis
    by (simp add: middleware_bad_request)
qed

theorem missing_header_rejected_witness:
  "pathname req_no_header \<in> {''/'', ''/poem'', ''/monitoring''}
   \<and> headers_get req_no_header ''x-forwarded-for'' = None
   \<and> middleware env_ok req_no_header world0 =
       (NextResponse_json (JObj [(''error'', JStr ''IP not found'')]) 400, world0)"
  using missing_header_rejected [of req_no_header env_ok world0]
  by (simp add: req_no_header_def)

text \<open>
  C10. A request to an allowed path whose header \<^verbatim>\<open>x-forwarded-for\<close> is present and
  empty is answered with status 400, with the very result of the same request without
  the header, and without a call to the provider or a row handed to the store.
\<close>

theorem empty_header_rejected_like_missing:
  assumes "pathname req \<in> {''/'', ''/poem'', ''/monitoring''}"
    and "headers_get req ''x-forwarded-for'' = Some []"
  shows "middleware e req w = (NextResponse_json (JObj [(''error'', JStr ''IP not found'')]) 400, w)
       \<and> middleware e req w =
           middleware e (req\<lparr>headers_get := (headers_get req)(''x-forwarded-for'' := None)\<rparr>) w
       \<and> filter is_fetch (events (snd (middleware e req w))) = filter is_fetch (events w)
       \<and> rows_written (events (snd (middleware e req w))) = rows_written (events w)
       \<and> ip_info_table (snd (middleware e req w)) = ip_info_table w"
proof -
  let ?absent = "req\<lparr>headers_get := (headers_get req)(''x-forwarded-for'' := None)\<rparr>"
  from assms(1) have allowed: "pathname req \<in> set allowed_paths"
    by (simp add: allowed_paths_def)
  from assms(2) have "falsy (headers_get req ''x-forwarded-for'')"
    by (simp add: falsy_def)
  with allowed have here: "middleware e req w =
      (NextResponse_json (JObj [(''error'', JStr ''IP not found'')]) 400, w)"
    by (rule middleware_bad_request)
  have "pathname ?absent \<in> set allowed_paths"
    using allowed by simp
  moreover have "falsy (headers_get ?absent ''x-forwarded-for'')"
    by (simp add: falsy_def)
  ultimately have "middleware e ?absent w =
      (NextResponse_json (JObj [(''error'', JStr ''IP not found'')]) 400, w)"
    by (rule middleware_bad_request)
  with here show ?thesis by simp
qed

theorem empty_header_rejected_like_missing_witness:
  "pathname req_empty_header \<in> {''/'', ''/poem'', ''/monitoring''}
   \<and> headers_get req_empty_header ''x-forwarded-for'' = Some []
   \<and> middleware env_ok req_empty_header world0 =
       (NextResponse_json (JObj [(''error'', JStr ''IP not found'')]) 400, world0)
   \<and> middleware env_ok req_empty_header world0 = middleware env_ok req_no_header world0"
proof -
  have "middleware env_ok req_no_header world0 =
      (NextResponse_json (JObj [(''error'', JStr ''IP not found'')]) 400, world0)"
    by (simp add: middleware_bad_request req_no_header_def allowed_paths_def falsy_def)
  then show ?thesis
    using empty_header_rejected_like_missing [of req_empty_header env_ok world0]
    by (simp add: req_empty_header_def)
qed

subsection \<open>The lookup\<close>

text \<open>
  C5. For a request to an allowed path with a non-empty header value \<open>v\<close>, the run
  issues exactly one call to the provider, and the URL of that call is
  \<^verbatim>\<open>https://ipinfo.io/\<close>, then \<open>v\<close> character for character, then
  \<^verbatim>\<open>/json?token=\<close> and the token: the value is neither split, trimmed nor checked.
\<close>

theorem provider_called_with_raw_header:
  assumes "pathname req \<in> {''/'', ''/poem'', ''/monitoring''}"
    and "headers_get req ''x-forwarded-for'' = Some v"
    and "v \<noteq> []"
  shows "filter is_fetch (events (snd (middleware e req w))) =
           filter is_fetch (events w) @
           [FetchCall (''https://ipinfo.io/'' @ v @ ''/json?token='' @ template_undefined (IP_KEY e))]"
proof -
  from assms(1) have allowed: "pathname req \<in> set allowed_paths"
    by (simp add: allowed_paths_def)
  have url: "provider_url e v =
      ''https://ipinfo.io/'' @ v @ ''/json?token='' @ template_undefined (IP_KEY e)"
    by (simp add: provider_url_def IPINFO_API_URL_def)
  show ?thesis
  proof (cases "try_block e (provider_url e v)")
    case (Inl ex)
    from middleware_lookup_failed [OF allowed assms(2,3) Inl, of w] show ?thesis
      by (simp add: url)
  next
    case (Inr info)
    show ?thesis
    proof (cases "upsert_error e [new_row (randomUUID e (uuids_drawn w)) info]")
      case None
      from middleware_saved [OF allowed assms(2,3) Inr None] show ?thesis
        by (simp add: url)
    next
      case (Some er)
      from middleware_save_failed [OF allowed assms(2,3) Inr Some] show ?thesis
        by (simp add: url)
    qed
  qed
qed

theorem provider_called_with_raw_header_witness:
  "pathname req_proxy_chain \<in> {''/'', ''/poem'', ''/monitoring''}
   \<and> headers_get req_proxy_chain ''x-forwarded-for'' = Some '' 203.0.113.7, 10.0.0.1''
   \<and> '' 203.0.113.7, 10.0.0.1'' \<noteq> []
   \<and> filter is_fetch (events (snd (middleware env_ok req_proxy_chain world0))) =
       [FetchCall ''https://ipinfo.io/ 203.0.113.7, 10.0.0.1/json?token=tok'']"
  using provider_called_with_raw_header [of req_proxy_chain " '' 203.0.113.7, 10.0.0.1''" env_ok world0]
  by (simp add: req_proxy_chain_def env_ok_def world0_def template_undefined_def)

text \<open>
  The HTTP status of the provider's answer is never read. An answer with status 429
  and a JSON object as body goes through \<^verbatim>\<open>res.json()\<close> and the nine property reads
  like any other: the lookup returns an object (every property undefined), and that
  object is handed to the store.
\<close>

theorem lookup_non_success_status_counterexample:
  "fetch env_rate_limited (provider_url env_rate_limited ''8.8.8.8'') =
     Inr \<lparr>status = 429,
          res_json = Inr (JObj [(''status'', JNum (Finite 429)),
                                (''error'', JObj [(''title'', JStr ''Rate limit exceeded'')])])\<rparr>
   \<and> fst (getIpInfoFromIp env_rate_limited ''8.8.8.8'' world0) \<noteq> None
   \<and> filter is_upsert (events (snd (middleware env_rate_limited req_monitoring world0))) =
       [UpsertCall [\<lparr>ip = None, hostname = None, city = None, region = None, country = None,
                     loc = None, org = None, postal = None, timezone = None,
                     row_id = ''uuid-''\<rparr>]]"
  by (simp add: env_rate_limited_def env_ok_def world0_def req_monitoring_def
      middleware_def allowed_paths_def falsy_def getIpInfoFromIp_def try_block_def
      read_fields_def and_then_def get_prop_def saveIpInfoToDatabase_def emit_def
      crypto_randomUUID_def upsert_def new_row_def provider_url_def)

text \<open>
  C3, as the code has it. When \<^verbatim>\<open>fetch\<close> rejects (a network error), or when it
  resolves to a response, of any status, whose body \<^verbatim>\<open>res.json()\<close> cannot read as
  JSON, the lookup returns \<^verbatim>\<open>null\<close>, the failure is logged, no row is handed to the
  store, the table is unchanged, and the caller receives the original response.
\<close>

theorem lookup_failure_skips_write:
  assumes "pathname req \<in> {''/'', ''/poem'', ''/monitoring''}"
    and "headers_get req ''x-forwarded-for'' = Some v"
    and "v \<noteq> []"
    and "(\<exists>ex. fetch e (provider_url e v) = Inl ex)
       \<or> (\<exists>res ex. fetch e (provider_url e v) = Inr res \<and> res_json res = Inl ex)"
  shows "fst (getIpInfoFromIp e v w) = None
       \<and> fst (middleware e req w) = NextResponse_next
       \<and> filter is_upsert (events (snd (middleware e req w))) = filter is_upsert (events w)
       \<and> rows_written (events (snd (middleware e req w))) = rows_written (events w)
       \<and> ip_info_table (snd (middleware e req w)) = ip_info_table w
       \<and> (\<exists>ex. events (snd (middleware e req w)) =
                 events w @ [FetchCall (provider_url e v),
                             ConsoleError ''Error fetching IP info:'' (Exn ex)])"
proof -
  from assms(1) have allowed: "pathname req \<in> set allowed_paths"
    by (simp add: allowed_paths_def)
  from assms(4) obtain ex where "try_block e (provider_url e v) = Inl ex"
    using try_block_fetch_rejected try_block_unreadable by blast
  from middleware_lookup_failed_obs [OF allowed assms(2,3) this]
  show ?thesis by blast
qed

theorem lookup_failure_skips_write_witness:
  "pathname req_monitoring \<in> {''/'', ''/poem'', ''/monitoring''}
   \<and> headers_get req_monitoring ''x-forwarded-for'' = Some ''8.8.8.8''
   \<and> ''8.8.8.8'' \<noteq> []
   \<and> fetch env_html_500 (provider_url env_html_500 ''8.8.8.8'') =
       Inr \<lparr>status = 500, res_json = Inl (SyntaxError ''Unexpected token < in JSON at position 0'')\<rparr>
   \<and> fst (getIpInfoFromIp env_html_500 ''8.8.8.8'' world0) = None
   \<and> fst (middleware env_html_500 req_monitoring world0) = NextResponse_next
   \<and> rows_written (events (snd (middleware env_html_500 req_monitoring world0))) = []
   \<and> ip_info_table (snd (middleware env_html_500 req_monitoring world0)) = []
   \<and> fetch env_offline (provider_url env_offline ''8.8.8.8'') = Inl (TypeError ''fetch failed'')
   \<and> fst (getIpInfoFromIp env_offline ''8.8.8.8'' world0) = None
   \<and> fst (middleware env_offline req_monitoring world0) = NextResponse_next
   \<and> rows_written (events (snd (middleware env_offline req_monitoring world0))) = []
   \<and> ip_info_table (snd (middleware env_offline req_monitoring world0)) = []"
proof -
  have f: "fetch env_html_500 (provider_url env_html_500 ''8.8.8.8'') =
       Inr \<lparr>status = 500, res_json = Inl (SyntaxError ''Unexpected token < in JSON at position 0'')\<rparr>"
    by (simp add: env_html_500_def)
  then have unreadable:
    "(\<exists>ex. fetch env_html_500 (provider_url env_html_500 ''8.8.8.8'') = Inl ex)
       \<or> (\<exists>res ex. fetch env_html_500 (provider_url env_html_500 ''8.8.8.8'') = Inr res
            \<and> res_json res = Inl ex)"
    by simp
  have g: "fetch env_offline (provider_url env_offline ''8.8.8.8'') = Inl (TypeError ''fetch failed'')"
    by (simp add: env_offline_def)
  then have rejected:
    "(\<exists>ex. fetch env_offline (provider_url env_offline ''8.8.8.8'') = Inl ex)
       \<or> (\<exists>res ex. fetch env_offline (provider_url env_offline ''8.8.8.8'') = Inr res
            \<and> res_json res = Inl ex)"
    by simp
  from lookup_failure_skips_write [of req_monitoring "''8.8.8.8''" env_html_500 world0, OF _ _ _ unreadable]
    lookup_failure_skips_write [of req_monitoring "''8.8.8.8''" env_offline world0, OF _ _ _ rejected]
    f g
  show ?thesis
    by (simp add: req_monitoring_def world0_def)
qed

subsection \<open>The write\<close>

text \<open>
  C4. For a request to an allowed path with a non-empty header value, when the provider
  answers with a JSON object that has all nine properties, the run hands exactly one
  row to the store, in one \<^verbatim>\<open>upsert\<close> call. The row carries the nine values of the
  payload unchanged and, as \<^verbatim>\<open>id\<close>, the next value drawn from \<^verbatim>\<open>crypto.randomUUID\<close>.
  The caller receives the original response. When the database accepts the write the
  table is the old table with the row upserted; the row is appended when its id is not
  in the table yet.
\<close>

theorem full_payload_written_once:
  assumes "pathname req \<in> {''/'', ''/poem'', ''/monitoring''}"
    and "headers_get req ''x-forwarded-for'' = Some v"
    and "v \<noteq> []"
    and "fetch e (provider_url e v) = Inr res"
    and "res_json res = Inr (JObj payload)"
    and "map_of payload ''ip'' = Some a1"
    and "map_of payload ''hostname'' = Some a2"
    and "map_of payload ''city'' = Some a3"
    and "map_of payload ''region'' = Some a4"
    and "map_of payload ''country'' = Some a5"
    and "map_of payload ''loc'' = Some a6"
    and "map_of payload ''org'' = Some a7"
    and "map_of payload ''postal'' = Some a8"
    and "map_of payload ''timezone'' = Some a9"
    and "row = \<lparr>ip = Some a1, hostname = Some a2, city = Some a3, region = Some a4,
               country = Some a5, loc = Some a6, org = Some a7, postal = Some a8,
               timezone = Some a9, row_id = randomUUID e (uuids_drawn w)\<rparr>"
  shows "fst (middleware e req w) = NextResponse_next
       \<and> rows_written (events (snd (middleware e req w))) = rows_written (events w) @ [row]
       \<and> filter is_upsert (events (snd (middleware e req w))) =
           filter is_upsert (events w) @ [UpsertCall [row]]
       \<and> uuids_drawn (snd (middleware e req w)) = Suc (uuids_drawn w)
       \<and> (upsert_error e [row] = None \<longrightarrow>
            ip_info_table (snd (middleware e req w)) = upsert_row row (ip_info_table w))
       \<and> (upsert_error e [row] = None \<and> row_id row \<notin> row_id ` set (ip_info_table w) \<longrightarrow>
            ip_info_table (snd (middleware e req w)) = ip_info_table w @ [row])"
proof -
  from assms(1) have allowed: "pathname req \<in> set allowed_paths"
    by (simp add: allowed_paths_def)
  define info where "info = \<lparr>ip = Some a1, hostname = Some a2, city = Some a3, region = Some a4,
    country = Some a5, loc = Some a6, org = Some a7, postal = Some a8, timezone = Some a9\<rparr>"
  have "try_block e (provider_url e v) = Inr info"
    using try_block_object [OF assms(4,5)] assms(6-14) by (simp add: info_def)
  note run = this
  have row: "new_row (randomUUID e (uuids_drawn w)) info = row"
    by (simp add: new_row_def info_def assms(15))
  note obs = middleware_write_attempted_obs [OF allowed assms(2,3) run, of w, unfolded row]
  have saved: "ip_info_table (snd (middleware e req w)) = upsert_row row (ip_info_table w)"
    if "upsert_error e [row] = None"
    using middleware_saved [OF allowed assms(2,3) run, of w, unfolded row, OF that] by simp
  from obs saved show ?thesis
    by (simp add: upsert_row_fresh)
qed

theorem full_payload_written_once_witness:
  "pathname req_monitoring \<in> {''/'', ''/poem'', ''/monitoring''}
   \<and> headers_get req_monitoring ''x-forwarded-for'' = Some ''8.8.8.8''
   \<and> fetch env_ok (provider_url env_ok ''8.8.8.8'') = Inr \<lparr>status = 200, res_json = Inr payload_full\<rparr>
   \<and> upsert_error env_ok
       [\<lparr>ip = Some (JStr ''8.8.8.8''), hostname = Some (JStr ''dns.google''),
         city = Some (JStr ''Mountain View''), region = Some (JStr ''California''),
         country = Some (JStr ''US''), loc = Some (JStr ''37.4,-122.07''),
         org = Some (JStr ''AS15169 Google LLC''), postal = Some (JStr ''94043''),
         timezone = Some (JStr ''America/Los_Angeles''), row_id = ''uuid-''\<rparr>] = None
   \<and> fst (middleware env_ok req_monitoring world0) = NextResponse_next
   \<and> rows_written (events (snd (middleware env_ok req_monitoring world0))) =
       [\<lparr>ip = Some (JStr ''8.8.8.8''), hostname = Some (JStr ''dns.google''),
         city = Some (JStr ''Mountain View''), region = Some (JStr ''California''),
         country = Some (JStr ''US''), loc = Some (JStr ''37.4,-122.07''),
         org = Some (JStr ''AS15169 Google LLC''), postal = Some (JStr ''94043''),
         timezone = Some (JStr ''America/Los_Angeles''), row_id = ''uuid-''\<rparr>]
   \<and> ip_info_table (snd (middleware env_ok req_monitoring world0)) =
       [\<lparr>ip = Some (JStr ''8.8.8.8''), hostname = Some (JStr ''dns.google''),
         city = Some (JStr ''Mountain View''), region = Some (JStr ''California''),
         country = Some (JStr ''US''), loc = Some (JStr ''37.4,-122.07''),
         org = Some (JStr ''AS15169 Google LLC''), postal = Some (JStr ''94043''),
         timezone = Some (JStr ''America/Los_Angeles''), row_id = ''uuid-''\<rparr>]"
  using full_payload_written_once
    [where req = req_monitoring and v = "''8.8.8.8''" and e = env_ok and w = world0
       and res = "\<lparr>status = 200, res_json = Inr payload_full\<rparr>"
       and payload = "[(''ip'', JStr ''8.8.8.8''), (''hostname'', JStr ''dns.google''),
          (''city'', JStr ''Mountain View''), (''region'', JStr ''California''),
          (''country'', JStr ''US''), (''loc'', JStr ''37.4,-122.07''),
          (''org'', JStr ''AS15169 Google LLC''), (''postal'', JStr ''94043''),
          (''timezone'', JStr ''America/Los_Angeles'')]"
       and ?a1.0 = "JStr ''8.8.8.8''" and ?a2.0 = "JStr ''dns.google''"
       and ?a3.0 = "JStr ''Mountain View''" and ?a4.0 = "JStr ''California''"
       and ?a5.0 = "JStr ''US''" and ?a6.0 = "JStr ''37.4,-122.07''"
       and ?a7.0 = "JStr ''AS15169 Google LLC''" and ?a8.0 = "JStr ''94043''"
       and ?a9.0 = "JStr ''America/Los_Angeles''", OF _ _ _ _ _ _ _ _ _ _ _ _ _ _ refl]
  by (simp add: req_monitoring_def env_ok_def world0_def payload_full_def)

text \<open>
  C8. For a request to an allowed path with a non-empty header value whose lookup
  returned an object, when the database rejects the write: the rejection is logged with
  \<^verbatim>\<open>console.error\<close> and nothing else happens. The caller receives the original
  response, the run made exactly one \<^verbatim>\<open>upsert\<close> call (no retry), and the table is
  unchanged.
\<close>

theorem storage_failure_only_logged:
  assumes "pathname req \<in> {''/'', ''/poem'', ''/monitoring''}"
    and "headers_get req ''x-forwarded-for'' = Some v"
    and "v \<noteq> []"
    and "try_block e (provider_url e v) = Inr info"
    and "upsert_error e [new_row (randomUUID e (uuids_drawn w)) info] = Some er"
  shows "fst (middleware e req w) = NextResponse_next
       \<and> events (snd (middleware e req w)) =
           events w @ [FetchCall (provider_url e v),
                       UpsertCall [new_row (randomUUID e (uuids_drawn w)) info],
                       ConsoleError ''Error saving IP info to Supabase:'' (PostgrestError er)]
       \<and> length (filter is_upsert (events (snd (middleware e req w)))) =
           Suc (length (filter is_upsert (events w)))
       \<and> ip_info_table (snd (middleware e req w)) = ip_info_table w"
proof -
  from assms(1) have allowed: "pathname req \<in> set allowed_paths"
    by (simp add: allowed_paths_def)
  from middleware_save_failed [OF allowed assms(2-5)] show ?thesis
    by simp
qed

theorem storage_failure_only_logged_witness:
  "pathname req_monitoring \<in> {''/'', ''/poem'', ''/monitoring''}
   \<and> headers_get req_monitoring ''x-forwarded-for'' = Some ''8.8.8.8''
   \<and> try_block env_db_down (provider_url env_db_down ''8.8.8.8'') = Inr info_full
   \<and> upsert_error env_db_down [new_row ''uuid-'' info_full] =
        Some ''permission denied for table ip_info''
   \<and> fst (middleware env_db_down req_monitoring world0) = NextResponse_next
   \<and> events (snd (middleware env_db_down req_monitoring world0)) =
        [FetchCall ''https://ipinfo.io/8.8.8.8/json?token=tok'',
         UpsertCall [new_row ''uuid-'' info_full],
         ConsoleError ''Error saving IP info to Supabase:''
           (PostgrestError ''permission denied for table ip_info'')]
   \<and> ip_info_table (snd (middleware env_db_down req_monitoring world0)) = []"
proof -
  have t: "try_block env_db_down (provider_url env_db_down ''8.8.8.8'') = Inr info_full"
    by (rule try_block_payload_full [where st = 200]) (simp add: env_db_down_def env_ok_def)
  have i: "randomUUID env_db_down (uuids_drawn world0) = ''uuid-''"
    and url: "provider_url env_db_down ''8.8.8.8'' = ''https://ipinfo.io/8.8.8.8/json?token=tok''"
    and w: "events world0 = []" "ip_info_table world0 = []"
    by (simp_all add: env_db_down_def env_ok_def world0_def provider_url_def IPINFO_API_URL_def
        template_undefined_def)
  have u: "upsert_error env_db_down [new_row (randomUUID env_db_down (uuids_drawn world0)) info_full] =
      Some ''permission denied for table ip_info''"
    by (simp add: env_db_down_def)
  have p: "pathname req_monitoring \<in> {''/'', ''/poem'', ''/monitoring''}"
    and h: "headers_get req_monitoring ''x-forwarded-for'' = Some ''8.8.8.8''"
    by (simp_all add: req_monitoring_def)
  from storage_failure_only_logged [OF p h _ t u] t u p h show ?thesis
    unfolding i url w by simp
qed

text \<open>
  C6. The same qualifying request handled twice in a row, the lookup returning an
  object both times: two rows are handed to the store, equal in the nine fields and
  different in \<^verbatim>\<open>id\<close>. The id of a row is the value drawn from \<^verbatim>\<open>crypto.randomUUID\<close> and
  depends on nothing else, so the rows differ as soon as two consecutive draws differ,
  which is what \<^verbatim>\<open>randomUUID\<close> is for. When the database accepts both writes and neither
  id is in the table yet, the table ends with both rows: the second visit of an address
  does not replace the first.
\<close>

theorem repeated_request_stores_two_rows:
  assumes "pathname req \<in> {''/'', ''/poem'', ''/monitoring''}"
    and "headers_get req ''x-forwarded-for'' = Some v"
    and "v \<noteq> []"
    and "try_block e (provider_url e v) = Inr info"
    and "randomUUID e (uuids_drawn w) \<noteq> randomUUID e (Suc (uuids_drawn w))"
    and "w1 = snd (middleware e req w)"
    and "w2 = snd (middleware e req w1)"
    and "r1 = new_row (randomUUID e (uuids_drawn w)) info"
    and "r2 = new_row (randomUUID e (Suc (uuids_drawn w))) info"
  shows "rows_written (events w2) = rows_written (events w) @ [r1, r2]
       \<and> row_id r1 \<noteq> row_id r2
       \<and> r1 \<noteq> r2
       \<and> r2 = r1\<lparr>row_id := row_id r2\<rparr>
       \<and> ((\<forall>rows. upsert_error e rows = None)
            \<and> row_id r1 \<notin> row_id ` set (ip_info_table w)
            \<and> row_id r2 \<notin> row_id ` set (ip_info_table w)
          \<longrightarrow> ip_info_table w2 = ip_info_table w @ [r1, r2])"
proof -
  from assms(1) have allowed: "pathname req \<in> set allowed_paths"
    by (simp add: allowed_paths_def)
  note first = middleware_write_attempted_obs [OF allowed assms(2-4), of w]
  have drawn: "uuids_drawn w1 = Suc (uuids_drawn w)"
    using first by (simp add: assms(6))
  note second = middleware_write_attempted_obs [OF allowed assms(2-4), of w1]
  have written: "rows_written (events w2) = rows_written (events w) @ [r1, r2]"
    using first second by (simp add: assms(6-9) drawn)
  have ids: "row_id r1 \<noteq> row_id r2"
    using assms(5) by (simp add: assms(8,9) new_row_def)
  then have differ: "r1 \<noteq> r2"
    by auto
  have same: "r2 = r1\<lparr>row_id := row_id r2\<rparr>"
    by (simp add: assms(8,9) new_row_def)
  have table: "ip_info_table w2 = ip_info_table w @ [r1, r2]"
    if ok: "\<forall>rows. upsert_error e rows = None"
      and f1: "row_id r1 \<notin> row_id ` set (ip_info_table w)"
      and f2: "row_id r2 \<notin> row_id ` set (ip_info_table w)"
  proof -
    from ok have a1: "upsert_error e [new_row (randomUUID e (uuids_drawn w)) info] = None"
      and a2: "upsert_error e [new_row (randomUUID e (uuids_drawn w1)) info] = None"
      by simp_all
    from middleware_saved [OF allowed assms(2-4) a1]
    have t1: "ip_info_table w1 = ip_info_table w @ [r1]"
      using f1 by (simp add: assms(6,8) upsert_row_fresh)
    from middleware_saved [OF allowed assms(2-4) a2]
    have "ip_info_table w2 = upsert_row r2 (ip_info_table w1)"
      by (simp add: assms(7,9) drawn)
    moreover have "row_id r2 \<notin> row_id ` set (ip_info_table w1)"
      using f2 ids by (simp add: t1)
    ultimately show ?thesis
      by (simp add: upsert_row_fresh t1)
  qed
  from written ids differ same table show ?thesis
    by blast
qed

theorem repeated_request_stores_two_rows_witness:
  "pathname req_monitoring \<in> {''/'', ''/poem'', ''/monitoring''}
   \<and> headers_get req_monitoring ''x-forwarded-for'' = Some ''8.8.8.8''
   \<and> try_block env_ok (provider_url env_ok ''8.8.8.8'') = Inr info_full
   \<and> randomUUID env_ok (uuids_drawn world0) \<noteq> randomUUID env_ok (Suc (uuids_drawn world0))
   \<and> (\<forall>rows. upsert_error env_ok rows = None)
   \<and> rows_written (events (snd (middleware env_ok req_monitoring
         (snd (middleware env_ok req_monitoring world0))))) =
       [new_row ''uuid-'' info_full, new_row ''uuid-x'' info_full]
   \<and> ip_info_table (snd (middleware env_ok req_monitoring
         (snd (middleware env_ok req_monitoring world0)))) =
       [new_row ''uuid-'' info_full, new_row ''uuid-x'' info_full]"
proof -
  have t: "try_block env_ok (provider_url env_ok ''8.8.8.8'') = Inr info_full"
    by (rule try_block_payload_full [where st = 200]) (simp add: env_ok_def)
  have p: "pathname req_monitoring \<in> {''/'', ''/poem'', ''/monitoring''}"
    and h: "headers_get req_monitoring ''x-forwarded-for'' = Some ''8.8.8.8''"
    by (simp_all add: req_monitoring_def)
  have u: "randomUUID env_ok (uuids_drawn world0) \<noteq> randomUUID env_ok (Suc (uuids_drawn world0))"
    and a: "\<forall>rows. upsert_error env_ok rows = None"
    and ids: "randomUUID env_ok (uuids_drawn world0) = ''uuid-''"
      "randomUUID env_ok (Suc (uuids_drawn world0)) = ''uuid-x''"
    and e: "ip_info_table world0 = []" "events world0 = []"
    by (simp_all add: env_ok_def world0_def)
  from repeated_request_stores_two_rows [OF p h _ t u refl refl refl refl] a
  have "rows_written (events (snd (middleware env_ok req_monitoring
         (snd (middleware env_ok req_monitoring world0))))) =
       [new_row ''uuid-'' info_full, new_row ''uuid-x'' info_full]
     \<and> ip_info_table (snd (middleware env_ok req_monitoring
              (snd (middleware env_ok req_monitoring world0)))) =
            [new_row ''uuid-'' info_full, new_row ''uuid-x'' info_full]"
    by (simp add: ids e)
  with p h u a t show ?thesis
    by blast
qed

text \<open>
  The provider answers a reserved address with the two properties \<^verbatim>\<open>ip\<close> and
  \<^verbatim>\<open>bogon\<close>. The lookup copies what is there, and the row handed to the store has
  \<^verbatim>\<open>ip\<close> and \<^verbatim>\<open>id\<close> and \<^verbatim>\<open>undefined\<close> in the eight other fields.
\<close>

theorem partial_payload_counterexample:
  "fetch env_bogon (provider_url env_bogon ''127.0.0.1'') =
     Inr \<lparr>status = 200,
          res_json = Inr (JObj [(''ip'', JStr ''127.0.0.1''), (''bogon'', JBool True)])\<rparr>
   \<and> rows_written (events (snd (middleware env_bogon req_localhost world0))) =
       [\<lparr>ip = Some (JStr ''127.0.0.1''), hostname = None, city = None, region = None,
         country = None, loc = None, org = None, postal = None, timezone = None,
         row_id = ''uuid-''\<rparr>]
   \<and> ip_info_table (snd (middleware env_bogon req_localhost world0)) =
       [\<lparr>ip = Some (JStr ''127.0.0.1''), hostname = None, city = None, region = None,
         country = None, loc = None, org = None, postal = None, timezone = None,
         row_id = ''uuid-''\<rparr>]"
  by (simp add: env_bogon_def env_ok_def world0_def req_localhost_def
      middleware_def allowed_paths_def falsy_def getIpInfoFromIp_def try_block_def
      read_fields_def and_then_def get_prop_def saveIpInfoToDatabase_def emit_def
      crypto_randomUUID_def upsert_def new_row_def provider_url_def)

text \<open>
  C7, as the code has it. For every request, either no row is handed to the store, or
  exactly one is, and then the lookup returned a JSON value other than \<^verbatim>\<open>null\<close> and
  each of the nine fields of the row is that value's property of the same name, as it
  is: the payload's value where the payload has the property, \<^verbatim>\<open>undefined\<close> where it
  has not. No row is written after a failed lookup, and no row mixes two lookups.
\<close>

theorem write_is_one_whole_lookup_or_nothing:
  "rows_written (events (snd (middleware e req w))) = rows_written (events w)
   \<or> (\<exists>v res data.
        headers_get req ''x-forwarded-for'' = Some v
        \<and> fetch e (provider_url e v) = Inr res
        \<and> res_json res = Inr data
        \<and> data \<noteq> JNull
        \<and> rows_written (events (snd (middleware e req w))) =
            rows_written (events w) @
            [\<lparr>ip = own_prop data ''ip'', hostname = own_prop data ''hostname'',
              city = own_prop data ''city'', region = own_prop data ''region'',
              country = own_prop data ''country'', loc = own_prop data ''loc'',
              org = own_prop data ''org'', postal = own_prop data ''postal'',
              timezone = own_prop data ''timezone'',
              row_id = randomUUID e (uuids_drawn w)\<rparr>])"
proof (cases "pathname req \<in> set allowed_paths")
  case False
  then show ?thesis
    by (simp add: middleware_forbidden)
next
  case allowed: True
  show ?thesis
  proof (cases "falsy (headers_get req ''x-forwarded-for'')")
    case True
    with allowed show ?thesis
      by (simp add: middleware_bad_request)
  next
    case False
    then obtain v where h: "headers_get req ''x-forwarded-for'' = Some v" and v: "v \<noteq> []"
      by (auto simp: falsy_def split: option.splits)
    show ?thesis
    proof (cases "try_block e (provider_url e v)")
      case (Inl ex)
      from middleware_lookup_failed_obs(3) [OF allowed h v Inl] show ?thesis
        by simp
    next
      case (Inr info)
      from try_block_Inr_D [OF Inr] obtain res data
        where f: "fetch e (provider_url e v) = Inr res"
          and j: "res_json res = Inr data" and n: "data \<noteq> JNull"
        by blast
      from try_block_object [OF f j n] Inr
      have info: "info = \<lparr>ip = own_prop data ''ip'', hostname = own_prop data ''hostname'',
              city = own_prop data ''city'', region = own_prop data ''region'',
              country = own_prop data ''country'', loc = own_prop data ''loc'',
              org = own_prop data ''org'', postal = own_prop data ''postal'',
              timezone = own_prop data ''timezone''\<rparr>"
        by simp
      from middleware_write_attempted_obs [OF allowed h v Inr, of w]
      have "rows_written (events (snd (middleware e req w))) =
            rows_written (events w) @ [new_row (randomUUID e (uuids_drawn w)) info]"
        by simp
      with h f j n show ?thesis
        by (simp add: info new_row_def)
    qed
  qed
qed

theorem write_is_one_whole_lookup_or_nothing_witness:
  "rows_written (events (snd (middleware env_bogon req_localhost world0))) \<noteq>
     rows_written (events world0)
   \<and> (\<exists>data. fetch env_bogon (provider_url env_bogon ''127.0.0.1'') =
                Inr \<lparr>status = 200, res_json = Inr data\<rparr>
        \<and> rows_written (events (snd (middleware env_bogon req_localhost world0))) =
            [\<lparr>ip = own_prop data ''ip'', hostname = own_prop data ''hostname'',
              city = own_prop data ''city'', region = own_prop data ''region'',
              country = own_prop data ''country'', loc = own_prop data ''loc'',
              org = own_prop data ''org'', postal = own_prop data ''postal'',
              timezone = own_prop data ''timezone'',
              row_id = ''uuid-''\<rparr>])"
  using write_is_one_whole_lookup_or_nothing [of env_bogon req_localhost world0]
  by (simp add: env_bogon_def env_ok_def world0_def req_localhost_def
      middleware_def allowed_paths_def falsy_def getIpInfoFromIp_def try_block_def
      read_fields_def and_then_def get_prop_def saveIpInfoToDatabase_def emit_def
      crypto_randomUUID_def upsert_def new_row_def provider_url_def)

subsection \<open>Markers on the map page\<close>

lemma element_map:
  "element (map f xs) i = map_option f (element xs i)"
  by (simp add: element_def)

lemma plottable_coords:
  "plottable Number item \<Longrightarrow>
   \<not> isNaN (lat (spec_marker Number item)) \<and> \<not> isNaN (lng (spec_marker Number item))"
  by (auto simp: plottable_def spec_marker_def isNaN_def element_def
      split: option.splits list.splits)

lemma unplottable_coords:
  "l_loc item = Some s \<Longrightarrow> \<not> plottable Number item \<Longrightarrow>
   isNaN (lat (spec_marker Number item)) \<or> isNaN (lng (spec_marker Number item))"
  by (auto simp: plottable_def spec_marker_def isNaN_def element_def
      split: option.splits list.splits)

lemma add_marker_spec:
  "l_loc item = Some s \<Longrightarrow>
   add_marker Number item ms =
     (if isNaN (lat (spec_marker Number item)) \<or> isNaN (lng (spec_marker Number item))
      then Inl (OtherError ''Invalid LatLng object'')
      else Inr (ms @ [spec_marker Number item]))"
  by (simp add: add_marker_def spec_marker_def element_map Let_def L_marker_def bindPopup_def
      and_then_def)

lemma add_marker_plottable:
  "plottable Number item \<Longrightarrow> add_marker Number item ms = Inr (ms @ [spec_marker Number item])"
proof -
  assume p: "plottable Number item"
  then obtain s where "l_loc item = Some s"
    by (auto simp: plottable_def split: option.splits)
  with plottable_coords [OF p] show ?thesis
    by (simp add: add_marker_spec)
qed

lemma add_marker_unplottable:
  "l_loc item = Some s \<Longrightarrow> \<not> plottable Number item \<Longrightarrow>
   add_marker Number item ms = Inl (OtherError ''Invalid LatLng object'')"
  using unplottable_coords [of item s Number] by (simp add: add_marker_spec)

lemma forEach_plottable:
  "\<forall>item \<in> set items. plottable Number item \<Longrightarrow>
   forEach Number items ms = Inr (ms @ map (spec_marker Number) items)"
proof (induction items arbitrary: ms)
  case Nil
  then show ?case by simp
next
  case (Cons item items)
  then show ?case
    by (simp add: add_marker_plottable and_then_def)
qed

lemma forEach_unplottable:
  "\<forall>item \<in> set items. l_loc item \<noteq> None \<Longrightarrow> \<exists>item \<in> set items. \<not> plottable Number item \<Longrightarrow>
   forEach Number items ms = Inl (OtherError ''Invalid LatLng object'')"
proof (induction items arbitrary: ms)
  case Nil
  then show ?case by simp
next
  case (Cons item items)
  from Cons.prems(1) obtain s where s: "l_loc item = Some s"
    by auto
  show ?case
  proof (cases "plottable Number item")
    case True
    with Cons.prems have "\<exists>item \<in> set items. \<not> plottable Number item"
      by auto
    with Cons.IH Cons.prems(1) True show ?thesis
      by (simp add: add_marker_plottable and_then_def)
  next
    case False
    with s show ?thesis
      by (simp add: add_marker_unplottable and_then_def)
  qed
qed

lemma not_falsy_has_loc:
  "(\<not> falsy (l_loc item)) = has_loc item"
  by (cases "l_loc item") (simp_all add: falsy_def has_loc_def)

lemma fetchLocations_rows:
  "fetchLocations (Inr data) p = p\<lparr>locations := filter has_loc data\<rparr>"
  by (simp add: fetchLocations_def not_falsy_has_loc)

lemma render_effect_initial:
  "render_effect Number window_defined initial_page = Inr initial_page"
  by (simp add: render_effect_def initial_page_def)

lemma MapPage_forEach:
  "MapPage Number True (Inr data) =
     (if filter has_loc data = []
      then Inr \<lparr>locations = [], leaflet_map = None, console = []\<rparr>
      else and_then (forEach Number (filter has_loc data) [])
             (\<lambda>ms. Inr \<lparr>locations = filter has_loc data, leaflet_map = Some ms, console = []\<rparr>))"
  by (simp add: MapPage_def render_effect_initial fetchLocations_rows and_then_def
      render_effect_def initial_page_def)

lemma MapPage_rows:
  assumes "\<forall>item \<in> set data. has_loc item \<longrightarrow> plottable Number item"
  shows "MapPage Number True (Inr data) =
     Inr \<lparr>locations = filter has_loc data,
          leaflet_map = (if filter has_loc data = [] then None
                         else Some (map (spec_marker Number) (filter has_loc data))),
          console = []\<rparr>"
proof -
  from assms have "\<forall>item \<in> set (filter has_loc data). plottable Number item"
    by simp
  then have "forEach Number (filter has_loc data) [] =
      Inr (map (spec_marker Number) (filter has_loc data))"
    by (simp add: forEach_plottable)
  then show ?thesis
    by (simp add: MapPage_forEach and_then_def)
qed

text \<open>
  One located row that cannot be plotted is enough for the effect to throw: the page
  then has no map with markers.
\<close>

lemma MapPage_unplottable:
  assumes "item \<in> set data" and "has_loc item" and "\<not> plottable Number item"
  shows "MapPage Number True (Inr data) = Inl (OtherError ''Invalid LatLng object'')"
proof -
  from assms have ne: "filter has_loc data \<noteq> []"
    by (auto simp: filter_empty_conv)
  have "\<forall>item \<in> set (filter has_loc data). l_loc item \<noteq> None"
    by (simp add: has_loc_def)
  moreover from assms have "\<exists>item \<in> set (filter has_loc data). \<not> plottable Number item"
    by auto
  ultimately have "forEach Number (filter has_loc data) [] = Inl (OtherError ''Invalid LatLng object'')"
    by (rule forEach_unplottable)
  with ne show ?thesis
    by (simp add: MapPage_forEach and_then_def)
qed

lemma js_split_no_sep:
  "sep \<notin> set s \<Longrightarrow> js_split sep s = [s]"
  by (induction s) auto

lemma js_split_first:
  "sep \<notin> set a \<Longrightarrow> js_split sep (a @ sep # b) = a # js_split sep b"
  by (induction a) auto

lemma js_split_pair:
  "sep \<notin> set a \<Longrightarrow> sep \<notin> set b \<Longrightarrow> js_split sep (a @ sep # b) = [a, b]"
  by (simp add: js_split_first js_split_no_sep)

text \<open>
  Two rows come back, both with a non-empty \<^verbatim>\<open>loc\<close>; the first is \<^verbatim>\<open>"abc"\<close>. The
  split gives one part, \<^verbatim>\<open>lat\<close> is NaN and \<^verbatim>\<open>lng\<close> is \<^verbatim>\<open>undefined\<close>, \<^verbatim>\<open>L.marker\<close>
  throws on the first row, and the loop ends before any marker exists: two located
  rows, no marker.
\<close>

theorem unplottable_loc_counterexample:
  "length (filter has_loc rows_unplottable) = 2
   \<and> js_split CHR '','' ''abc'' = [''abc'']
   \<and> Number_example ''abc'' = NaN
   \<and> MapPage Number_example True (Inr rows_unplottable) = Inl (OtherError ''Invalid LatLng object'')
   \<and> markers_of (MapPage Number_example True (Inr rows_unplottable)) = []"
  by (simp add: rows_unplottable_def has_loc_def Number_example_def MapPage_def render_effect_def
      initial_page_def fetchLocations_def falsy_def and_then_def add_marker_def L_marker_def
      isNaN_def element_def markers_of_def)

text \<open>
  C9, as the code has it. When every fetched row with a non-empty \<^verbatim>\<open>loc\<close> can be
  plotted (its \<^verbatim>\<open>loc\<close> has at least two comma-separated parts and \<^verbatim>\<open>Number\<close> reads
  neither of the first two as NaN), the effect does not throw and the map holds exactly
  one marker for each row whose \<^verbatim>\<open>loc\<close> is neither \<^verbatim>\<open>null\<close> nor empty, in the order of
  the rows, and none for the other rows. The marker of a row is \<open>spec_marker\<close>:
  \<^verbatim>\<open>loc\<close> split at the commas, the first two parts read with \<^verbatim>\<open>Number\<close>. For a
  \<^verbatim>\<open>loc\<close> of the form \<^verbatim>\<open>a,b\<close> the marker stands at (\<^verbatim>\<open>Number(a)\<close>, \<^verbatim>\<open>Number(b)\<close>).
\<close>

theorem one_marker_per_plottable_row:
  assumes "\<forall>item \<in> set data. has_loc item \<longrightarrow> plottable Number item"
  shows "(\<exists>p. MapPage Number True (Inr data) = Inr p)
   \<and> markers_of (MapPage Number True (Inr data)) = map (spec_marker Number) (filter has_loc data)
   \<and> length (markers_of (MapPage Number True (Inr data))) = length (filter has_loc data)
   \<and> (\<forall>item a b. l_loc item = Some (a @ CHR '','' # b) \<and> CHR '','' \<notin> set a \<and> CHR '','' \<notin> set b
        \<longrightarrow> lat (spec_marker Number item) = Some (Number a)
          \<and> lng (spec_marker Number item) = Some (Number b))"
proof -
  have pos: "lat (spec_marker Number item) = Some (Number a)
          \<and> lng (spec_marker Number item) = Some (Number b)"
    if "l_loc item = Some (a @ CHR '','' # b)" "CHR '','' \<notin> set a" "CHR '','' \<notin> set b"
    for item a b
    using that by (simp add: spec_marker_def js_split_pair element_def)
  note page = MapPage_rows [OF assms]
  have "markers_of (MapPage Number True (Inr data)) = map (spec_marker Number) (filter has_loc data)"
    by (simp add: page markers_of_def)
  with pos show ?thesis
    by (simp add: page)
qed

theorem one_marker_per_plottable_row_witness:
  "filter (\<lambda>item. has_loc item \<and> \<not> plottable Number_example item) rows_example = []
   \<and> markers_of (MapPage Number_example True (Inr rows_example)) =
     [\<lparr>lat = Some (Finite (187 / 5)), lng = Some (Finite (- 12207 / 100)),
       popup = ''<h3>Mountain View, US</h3><p>dns.google</p>''\<rparr>,
      \<lparr>lat = Some (Finite (- 47 / 2)), lng = Some (Finite (- 233 / 5)),
       popup = ''<h3>Sao Paulo, BR</h3><p>null</p>''\<rparr>]
   \<and> length (filter has_loc rows_example) = 2
   \<and> length rows_example = 4"
proof -
  have h: "\<forall>item \<in> set rows_example. has_loc item \<longrightarrow> plottable Number_example item"
    by (simp add: rows_example_def has_loc_def plottable_def Number_example_def)
  then have "filter (\<lambda>item. has_loc item \<and> \<not> plottable Number_example item) rows_example = []"
    by (simp add: filter_empty_conv)
  with one_marker_per_plottable_row [OF h] show ?thesis
    by (simp add: rows_example_def has_loc_def spec_marker_def element_def template_null_def
        Number_example_def)
qed

end
